theory Spec2Isabelle
  imports Main
begin

section \<open>The order form of \<^verbatim>\<open>lab10_mediator.py\<close>\<close>

text \<open>
  The form consists of six components coordinated by one \<^verbatim>\<open>OrderFormMediator\<close>.
  The embedding is by explicit state passing: the state is the mediator together with
  the six component objects it holds, the text written to standard output, and two
  ghost logs that count invocations.  The state described is that of a wired form,
  that is, after \<^verbatim>\<open>OrderFormMediator.__init__\<close> has assigned the mediator to the
  \<^verbatim>\<open>_mediator\<close> attribute of every component; the back reference is therefore
  not a field of the model.
\<close>

subsection \<open>Data model\<close>

text \<open>A \<^verbatim>\<open>datetime.date\<close>: year, month, day.  The form never inspects it.\<close>

type_synonym date = "nat \<times> nat \<times> nat"

text \<open>\<^verbatim>\<open>BaseComponent\<close>: the attribute \<^verbatim>\<open>is_active\<close>, set to \<^verbatim>\<open>True\<close> by the
  constructor.  \<^verbatim>\<open>DatePicker\<close> and \<^verbatim>\<open>TimeSlots\<close> add no attribute.\<close>

record base_component =
  is_active :: bool

text \<open>\<^verbatim>\<open>RecipientCheckbox\<close> and \<^verbatim>\<open>PickupCheckbox\<close>: the attribute \<^verbatim>\<open>is_checked\<close>
  is not created by the constructor, only by the first call of \<^verbatim>\<open>toggle\<close> that
  gets as far as the assignment; \<open>None\<close> stands for the absent attribute.\<close>

record checkbox = base_component +
  is_checked :: "bool option"

text \<open>\<^verbatim>\<open>RecipientInput\<close>.\<close>

record recipient_input = base_component +
  field_name :: string
  is_visible :: bool
  is_required :: bool

text \<open>The classes, as \<^verbatim>\<open>self.__class__.__name__\<close> prints them.\<close>

datatype cls = DatePicker | TimeSlots | RecipientCheckbox | RecipientInput | PickupCheckbox

text \<open>The two \<^verbatim>\<open>RecipientInput\<close> objects of the form, and its six components.\<close>

datatype input_ref = Name_input | Phone_input

datatype comp = Date_picker | Time_slots | Recipient_cb | Input input_ref | Pickup_cb

text \<open>The \<^verbatim>\<open>sender\<close> argument of \<^verbatim>\<open>notify\<close> is any object: one of the components,
  or a foreign object whose attribute \<^verbatim>\<open>is_checked\<close> is absent or a boolean.\<close>

datatype sender = Comp comp | Foreign "bool option"

text \<open>One constructor for each \<^verbatim>\<open>print\<close> statement of the module, with the values the
  statement interpolates.\<close>

datatype msg =
    Status_changed cls bool
  | Date_inactive cls
  | Date_selected cls date
  | Slots_updated cls
  | Checkbox_locked cls
  | Recipient_state cls bool
  | Field_visibility cls string bool
  | Field_required cls string bool
  | Pickup_rule
  | Pickup_chosen cls bool
  | Mediator_date
  | Mediator_recipient
  | Mediator_pickup

text \<open>The mediator with its six components (the attributes \<^verbatim>\<open>_date_picker\<close>, ...,
  \<^verbatim>\<open>_pickup_cb\<close>), standard output, and two ghost logs: \<open>notified\<close> lists the calls
  of \<^verbatim>\<open>OrderFormMediator.notify\<close> with their arguments, \<open>refreshed\<close> counts the calls
  of \<^verbatim>\<open>TimeSlots.update_available_slots\<close>.\<close>

record order_form =
  date_picker :: base_component
  time_slots :: base_component
  recipient_cb :: checkbox
  name_input :: recipient_input
  phone_input :: recipient_input
  pickup_cb :: checkbox
  stdout :: "msg list"
  notified :: "(sender \<times> string) list"
  refreshed :: nat

text \<open>The state of the six components, without the output and the ghost logs.\<close>

definition components ::
  "order_form \<Rightarrow>
     base_component \<times> base_component \<times> checkbox \<times> recipient_input \<times> recipient_input \<times> checkbox"
where
  "components s =
     (date_picker s, time_slots s, recipient_cb s, name_input s, phone_input s, pickup_cb s)"

subsection \<open>Construction\<close>

text \<open>The client code: the six constructors, then \<^verbatim>\<open>OrderFormMediator(...)\<close>.  The two
  field names are parameters.\<close>

definition new_base_component :: base_component where
  "new_base_component = \<lparr>is_active = True\<rparr>"

definition new_checkbox :: checkbox where
  "new_checkbox = \<lparr>is_active = True, is_checked = None\<rparr>"

definition new_recipient_input :: "string \<Rightarrow> recipient_input" where
  "new_recipient_input name =
     \<lparr>is_active = True, field_name = name, is_visible = False, is_required = False\<rparr>"

definition new_form :: "string \<Rightarrow> string \<Rightarrow> order_form" where
  "new_form name phone =
     \<lparr>date_picker = new_base_component,
      time_slots = new_base_component,
      recipient_cb = new_checkbox,
      name_input = new_recipient_input name,
      phone_input = new_recipient_input phone,
      pickup_cb = new_checkbox,
      stdout = [],
      notified = [],
      refreshed = 0\<rparr>"

subsection \<open>Components\<close>

text \<open>\<^verbatim>\<open>print(...)\<close>.\<close>

definition print :: "msg \<Rightarrow> order_form \<Rightarrow> order_form" where
  "print m s = s\<lparr>stdout := stdout s @ [m]\<rparr>"

fun class_of :: "comp \<Rightarrow> cls" where
  "class_of Date_picker = DatePicker"
| "class_of Time_slots = TimeSlots"
| "class_of Recipient_cb = RecipientCheckbox"
| "class_of (Input r) = RecipientInput"
| "class_of Pickup_cb = PickupCheckbox"

text \<open>\<^verbatim>\<open>BaseComponent.set_active(self, status)\<close>: assigns the flag of \<^verbatim>\<open>self\<close>,
  whatever it was, and prints.\<close>

fun assign_is_active :: "comp \<Rightarrow> bool \<Rightarrow> order_form \<Rightarrow> order_form" where
  "assign_is_active Date_picker b s = s\<lparr>date_picker := (date_picker s)\<lparr>is_active := b\<rparr>\<rparr>"
| "assign_is_active Time_slots b s = s\<lparr>time_slots := (time_slots s)\<lparr>is_active := b\<rparr>\<rparr>"
| "assign_is_active Recipient_cb b s = s\<lparr>recipient_cb := (recipient_cb s)\<lparr>is_active := b\<rparr>\<rparr>"
| "assign_is_active (Input Name_input) b s = s\<lparr>name_input := (name_input s)\<lparr>is_active := b\<rparr>\<rparr>"
| "assign_is_active (Input Phone_input) b s =
     s\<lparr>phone_input := (phone_input s)\<lparr>is_active := b\<rparr>\<rparr>"
| "assign_is_active Pickup_cb b s = s\<lparr>pickup_cb := (pickup_cb s)\<lparr>is_active := b\<rparr>\<rparr>"

definition set_active :: "comp \<Rightarrow> bool \<Rightarrow> order_form \<Rightarrow> order_form" where
  "set_active self status s =
     print (Status_changed (class_of self) status) (assign_is_active self status s)"

text \<open>The \<^verbatim>\<open>RecipientInput\<close> object behind a reference, and the assignment to it.\<close>

fun input_of :: "input_ref \<Rightarrow> order_form \<Rightarrow> recipient_input" where
  "input_of Name_input s = name_input s"
| "input_of Phone_input s = phone_input s"

fun assign_input :: "input_ref \<Rightarrow> recipient_input \<Rightarrow> order_form \<Rightarrow> order_form" where
  "assign_input Name_input i s = s\<lparr>name_input := i\<rparr>"
| "assign_input Phone_input i s = s\<lparr>phone_input := i\<rparr>"

text \<open>\<^verbatim>\<open>RecipientInput.set_visibility\<close> and \<^verbatim>\<open>RecipientInput.set_required\<close>: neither
  reads \<^verbatim>\<open>is_active\<close>.\<close>

definition set_visibility :: "input_ref \<Rightarrow> bool \<Rightarrow> order_form \<Rightarrow> order_form" where
  "set_visibility self visible s =
     (let s1 = assign_input self ((input_of self s)\<lparr>is_visible := visible\<rparr>) s
      in print (Field_visibility RecipientInput (field_name (input_of self s1)) visible) s1)"

definition set_required :: "input_ref \<Rightarrow> bool \<Rightarrow> order_form \<Rightarrow> order_form" where
  "set_required self required s =
     (let s1 = assign_input self ((input_of self s)\<lparr>is_required := required\<rparr>) s
      in print (Field_required RecipientInput (field_name (input_of self s1)) required) s1)"

text \<open>\<^verbatim>\<open>TimeSlots.update_available_slots\<close>: returns at once when inactive, prints
  otherwise.  The ghost counter records the call itself.\<close>

definition update_available_slots :: "order_form \<Rightarrow> order_form" where
  "update_available_slots s =
     (let s1 = s\<lparr>refreshed := Suc (refreshed s)\<rparr>
      in if \<not> is_active (time_slots s1) then s1 else print (Slots_updated TimeSlots) s1)"

subsection \<open>The mediator\<close>

text \<open>\<^verbatim>\<open>getattr(sender, 'is_checked', False)\<close>: only the two checkboxes can carry the
  attribute, and only once \<^verbatim>\<open>toggle\<close> has assigned it.\<close>

fun getattr_is_checked :: "sender \<Rightarrow> order_form \<Rightarrow> bool" where
  "getattr_is_checked (Comp Recipient_cb) s =
     (case is_checked (recipient_cb s) of None \<Rightarrow> False | Some b \<Rightarrow> b)"
| "getattr_is_checked (Comp Pickup_cb) s =
     (case is_checked (pickup_cb s) of None \<Rightarrow> False | Some b \<Rightarrow> b)"
| "getattr_is_checked (Comp Date_picker) s = False"
| "getattr_is_checked (Comp Time_slots) s = False"
| "getattr_is_checked (Comp (Input r)) s = False"
| "getattr_is_checked (Foreign a) s = (case a of None \<Rightarrow> False | Some b \<Rightarrow> b)"

text \<open>\<^verbatim>\<open>OrderFormMediator.notify(self, sender, event)\<close>: the chain of string comparisons
  of the source, in its order; an event that matches none falls through.\<close>

definition notify :: "sender \<Rightarrow> string \<Rightarrow> order_form \<Rightarrow> order_form" where
  "notify sender event s0 =
     (let s = s0\<lparr>notified := notified s0 @ [(sender, event)]\<rparr>
      in if event = ''date_changed'' then
           update_available_slots (print Mediator_date s)
         else if event = ''recipient_checkbox_toggled'' then
           (let is_checked = getattr_is_checked sender s;
                s1 = print Mediator_recipient s;
                s2 = set_visibility Name_input is_checked s1;
                s3 = set_required Name_input is_checked s2;
                s4 = set_visibility Phone_input is_checked s3
            in set_required Phone_input is_checked s4)
         else if event = ''pickup_toggled'' then
           (let is_pickup = getattr_is_checked sender s;
                s1 = print Mediator_pickup s;
                delivery_active = (\<not> is_pickup);
                s2 = set_active Date_picker delivery_active s1;
                s3 = set_active Time_slots delivery_active s2;
                s4 = set_active Recipient_cb delivery_active s3
            in if is_pickup then
                 set_visibility Phone_input False (set_visibility Name_input False s4)
               else s4)
         else s)"

subsection \<open>The operations that emit events\<close>

text \<open>\<^verbatim>\<open>DatePicker.select_date\<close>.\<close>

definition select_date :: "date \<Rightarrow> order_form \<Rightarrow> order_form" where
  "select_date selected_date s =
     (if \<not> is_active (date_picker s) then print (Date_inactive DatePicker) s
      else notify (Comp Date_picker) ''date_changed''
             (print (Date_selected DatePicker selected_date) s))"

text \<open>\<^verbatim>\<open>RecipientCheckbox.toggle\<close>: the attribute is assigned before the mediator is
  notified.\<close>

definition RecipientCheckbox_toggle :: "bool \<Rightarrow> order_form \<Rightarrow> order_form" where
  "RecipientCheckbox_toggle checked s =
     (if \<not> is_active (recipient_cb s) then print (Checkbox_locked RecipientCheckbox) s
      else
        (let s1 = print (Recipient_state RecipientCheckbox checked) s;
             s2 = s1\<lparr>recipient_cb := (recipient_cb s1)\<lparr>is_checked := Some checked\<rparr>\<rparr>
         in notify (Comp Recipient_cb) ''recipient_checkbox_toggled'' s2))"

text \<open>\<^verbatim>\<open>PickupCheckbox.toggle\<close>: \<^verbatim>\<open>is_active\<close> is not read.\<close>

definition PickupCheckbox_toggle :: "bool \<Rightarrow> order_form \<Rightarrow> order_form" where
  "PickupCheckbox_toggle checked s =
     (let s1 = print Pickup_rule s;
          s2 = print (Pickup_chosen PickupCheckbox checked) s1;
          s3 = s2\<lparr>pickup_cb := (pickup_cb s2)\<lparr>is_checked := Some checked\<rparr>\<rparr>
      in notify (Comp Pickup_cb) ''pickup_toggled'' s3)"

subsection \<open>Sequences of operations\<close>

text \<open>The operations a form exposes to its host: the methods of the six components.\<close>

datatype op =
    Select_date date
  | Recipient_toggle bool
  | Pickup_toggle bool
  | Set_active comp bool
  | Set_visibility input_ref bool
  | Set_required input_ref bool
  | Update_available_slots

fun exec :: "op \<Rightarrow> order_form \<Rightarrow> order_form" where
  "exec (Select_date d) s = select_date d s"
| "exec (Recipient_toggle b) s = RecipientCheckbox_toggle b s"
| "exec (Pickup_toggle b) s = PickupCheckbox_toggle b s"
| "exec (Set_active c b) s = set_active c b s"
| "exec (Set_visibility r b) s = set_visibility r b s"
| "exec (Set_required r b) s = set_required r b s"
| "exec Update_available_slots s = update_available_slots s"

fun run :: "op list \<Rightarrow> order_form \<Rightarrow> order_form" where
  "run [] s = s"
| "run (x # xs) s = run xs (exec x s)"

text \<open>The value of a checkbox as the mediator reads it (absent counts as false).\<close>

definition checked :: "checkbox \<Rightarrow> bool" where
  "checked c = (case is_checked c of None \<Rightarrow> False | Some b \<Rightarrow> b)"

fun is_field_setter :: "op \<Rightarrow> bool" where
  "is_field_setter (Set_visibility r b) = True"
| "is_field_setter (Set_required r b) = True"
| "is_field_setter x = False"

fun is_set_active :: "op \<Rightarrow> bool" where
  "is_set_active (Set_active c b) = True"
| "is_set_active x = False"

text \<open>Whether the pickup rule of the mediator is overriding the recipient checkbox: it
  does from a \<^verbatim>\<open>PickupCheckbox.toggle(True)\<close> until the next
  \<^verbatim>\<open>RecipientCheckbox.toggle\<close> that finds the recipient checkbox active (the only other
  place where the mediator assigns the visibility of the fields).  The first function
  is one operation, executed in state \<open>s\<close> with the override \<open>h\<close> before it; the second
  follows a sequence of operations.\<close>

fun pickup_override :: "op \<Rightarrow> order_form \<Rightarrow> bool \<Rightarrow> bool" where
  "pickup_override (Pickup_toggle b) s h = (b \<or> h)"
| "pickup_override (Recipient_toggle b) s h = (h \<and> \<not> is_active (recipient_cb s))"
| "pickup_override x s h = h"

fun override_after :: "op list \<Rightarrow> order_form \<Rightarrow> bool \<Rightarrow> bool" where
  "override_after [] s h = h"
| "override_after (x # xs) s h = override_after xs (exec x s) (pickup_override x s h)"

text \<open>Two properties that sequences of operations preserve: both fields are required
  exactly when the recipient checkbox is checked, and visible exactly when it is checked
  and not overridden by pickup; a checked pickup checkbox has the three delivery
  components inactive.\<close>

definition recipient_fields :: "order_form \<Rightarrow> bool \<Rightarrow> bool" where
  "recipient_fields s h =
     (is_required (name_input s) = checked (recipient_cb s) \<and>
      is_required (phone_input s) = checked (recipient_cb s) \<and>
      is_visible (name_input s) = (checked (recipient_cb s) \<and> \<not> h) \<and>
      is_visible (phone_input s) = (checked (recipient_cb s) \<and> \<not> h))"

definition pickup_consistent :: "order_form \<Rightarrow> bool" where
  "pickup_consistent s =
     (checked (pickup_cb s) \<longrightarrow>
        \<not> is_active (date_picker s) \<and> \<not> is_active (time_slots s) \<and>
        \<not> is_active (recipient_cb s))"

section \<open>Properties\<close>

lemmas form_defs = print_def set_active_def set_visibility_def set_required_def
  update_available_slots_def notify_def select_date_def RecipientCheckbox_toggle_def
  PickupCheckbox_toggle_def Let_def

lemmas new_defs = new_form_def new_base_component_def new_checkbox_def new_recipient_input_def

subsection \<open>The recipient fields and the recipient checkbox\<close>

lemma exec_recipient_fields:
  "recipient_fields s h \<Longrightarrow> \<not> is_field_setter x \<Longrightarrow>
     recipient_fields (exec x s) (pickup_override x s h)"
proof (cases x)
  case (Set_active c b)
  assume "recipient_fields s h"
  then show ?thesis unfolding Set_active
    by (cases "(c, b, s)" rule: assign_is_active.cases)
       (auto simp: recipient_fields_def checked_def form_defs)
qed (auto simp: recipient_fields_def checked_def form_defs)

lemma run_recipient_fields:
  "recipient_fields s h \<Longrightarrow> \<forall>x\<in>set ops. \<not> is_field_setter x \<Longrightarrow>
     recipient_fields (run ops s) (override_after ops s h)"
  by (induction ops arbitrary: s h) (simp_all add: exec_recipient_fields)

lemma new_form_recipient_fields: "recipient_fields (new_form n p) False"
  by (simp add: recipient_fields_def checked_def new_defs)

lemma pickup_override_False:
  "x \<noteq> Pickup_toggle True \<Longrightarrow> \<not> pickup_override x s False"
  by (cases x) auto

lemma override_after_False:
  "Pickup_toggle True \<notin> set ops \<Longrightarrow> \<not> override_after ops s False"
  by (induction ops arbitrary: s) (auto simp: pickup_override_False)

text \<open>
  C1 does not hold as stated.  After the recipient checkbox is checked and pickup is
  then chosen, the checkbox is still checked while the pickup rule of the mediator has
  hidden both fields; and a direct call of \<^verbatim>\<open>set_visibility\<close> shows a field while the
  checkbox is unchecked.
\<close>

theorem recipient_invariant_counterexample:
  "checked (recipient_cb
     (run [Recipient_toggle True, Pickup_toggle True] (new_form ''name'' ''phone''))) \<and>
   \<not> is_visible (name_input
     (run [Recipient_toggle True, Pickup_toggle True] (new_form ''name'' ''phone''))) \<and>
   \<not> checked (recipient_cb
     (run [Set_visibility Name_input True] (new_form ''name'' ''phone''))) \<and>
   is_visible (name_input
     (run [Set_visibility Name_input True] (new_form ''name'' ''phone'')))"
  by (simp add: checked_def form_defs new_defs)

text \<open>
  C1, amended: in every state reached from a newly wired form by a sequence of
  operations none of which is a direct call of \<^verbatim>\<open>set_visibility\<close> or
  \<^verbatim>\<open>set_required\<close>: a checked recipient checkbox has both fields required, and both
  fields visible unless \<^verbatim>\<open>PickupCheckbox.toggle(True)\<close> has been executed since the last
  \<^verbatim>\<open>RecipientCheckbox.toggle\<close> executed on an active recipient checkbox, in which case
  both fields are hidden; in particular both are visible when the sequence contains no
  \<^verbatim>\<open>PickupCheckbox.toggle(True)\<close>.  An unchecked recipient checkbox (or one never
  toggled) has both fields neither visible nor required.
\<close>

theorem recipient_fields_follow_toggle:
  assumes "\<forall>x\<in>set ops. \<not> is_field_setter x"
  shows "(checked (recipient_cb (run ops (new_form n p))) \<longrightarrow>
            is_required (name_input (run ops (new_form n p))) \<and>
            is_required (phone_input (run ops (new_form n p)))) \<and>
         (checked (recipient_cb (run ops (new_form n p))) \<and>
          Pickup_toggle True \<notin> set ops \<longrightarrow>
            is_visible (name_input (run ops (new_form n p))) \<and>
            is_visible (phone_input (run ops (new_form n p)))) \<and>
         (checked (recipient_cb (run ops (new_form n p))) \<and>
          \<not> override_after ops (new_form n p) False \<longrightarrow>
            is_visible (name_input (run ops (new_form n p))) \<and>
            is_visible (phone_input (run ops (new_form n p)))) \<and>
         (\<not> checked (recipient_cb (run ops (new_form n p))) \<longrightarrow>
            \<not> is_visible (name_input (run ops (new_form n p))) \<and>
            \<not> is_required (name_input (run ops (new_form n p))) \<and>
            \<not> is_visible (phone_input (run ops (new_form n p))) \<and>
            \<not> is_required (phone_input (run ops (new_form n p)))) \<and>
         (override_after ops (new_form n p) False \<longrightarrow>
            \<not> is_visible (name_input (run ops (new_form n p))) \<and>
            \<not> is_visible (phone_input (run ops (new_form n p)))) \<and>
         (Pickup_toggle True \<notin> set ops \<longrightarrow> \<not> override_after ops (new_form n p) False)"
  using run_recipient_fields [OF new_form_recipient_fields assms, of n p]
    override_after_False [of ops "new_form n p"]
  by (auto simp: recipient_fields_def)

theorem recipient_fields_follow_toggle_witness:
  "checked (recipient_cb (run [Recipient_toggle True] (new_form ''name'' ''phone''))) \<and>
   Pickup_toggle True \<notin> set [Recipient_toggle True] \<and>
   is_visible (name_input (run [Recipient_toggle True] (new_form ''name'' ''phone''))) \<and>
   is_visible (phone_input (run [Recipient_toggle True] (new_form ''name'' ''phone''))) \<and>
   is_required (name_input (run [Recipient_toggle True] (new_form ''name'' ''phone''))) \<and>
   is_required (phone_input (run [Recipient_toggle True] (new_form ''name'' ''phone''))) \<and>
   override_after [Recipient_toggle True, Pickup_toggle True] (new_form ''name'' ''phone'') False \<and>
   \<not> is_visible (name_input
     (run [Recipient_toggle True, Pickup_toggle True] (new_form ''name'' ''phone''))) \<and>
   is_required (name_input
     (run [Recipient_toggle True, Pickup_toggle True] (new_form ''name'' ''phone''))) \<and>
   \<not> checked (recipient_cb
     (run [Recipient_toggle True, Recipient_toggle False] (new_form ''name'' ''phone''))) \<and>
   \<not> is_visible (name_input
     (run [Recipient_toggle True, Recipient_toggle False] (new_form ''name'' ''phone''))) \<and>
   \<not> is_required (phone_input
     (run [Recipient_toggle True, Recipient_toggle False] (new_form ''name'' ''phone''))) \<and>
   \<not> override_after [Pickup_toggle True, Pickup_toggle False, Recipient_toggle True]
       (new_form ''name'' ''phone'') False \<and>
   is_visible (name_input
     (run [Pickup_toggle True, Pickup_toggle False, Recipient_toggle True]
        (new_form ''name'' ''phone'')))"
proof -
  have a: "\<forall>x\<in>set [Recipient_toggle True]. \<not> is_field_setter x"
    and b: "\<forall>x\<in>set [Recipient_toggle True, Pickup_toggle True]. \<not> is_field_setter x"
    and c: "\<forall>x\<in>set [Recipient_toggle True, Recipient_toggle False]. \<not> is_field_setter x"
    and d: "\<forall>x\<in>set [Pickup_toggle True, Pickup_toggle False, Recipient_toggle True].
              \<not> is_field_setter x"
    by simp_all
  have e: "checked (recipient_cb (run [Recipient_toggle True] (new_form ''name'' ''phone'')))"
    "checked (recipient_cb
       (run [Recipient_toggle True, Pickup_toggle True] (new_form ''name'' ''phone'')))"
    "\<not> checked (recipient_cb
       (run [Recipient_toggle True, Recipient_toggle False] (new_form ''name'' ''phone'')))"
    "checked (recipient_cb
       (run [Pickup_toggle True, Pickup_toggle False, Recipient_toggle True]
          (new_form ''name'' ''phone'')))"
    by (simp_all add: checked_def form_defs new_defs)
  have f: "override_after [Recipient_toggle True, Pickup_toggle True]
             (new_form ''name'' ''phone'') False"
    "\<not> override_after [Pickup_toggle True, Pickup_toggle False, Recipient_toggle True]
       (new_form ''name'' ''phone'') False"
    by (simp_all add: form_defs new_defs)
  have g: "Pickup_toggle True \<notin> set [Recipient_toggle True]"
    by simp
  from e f g
    recipient_fields_follow_toggle [OF a, of "''name''" "''phone''"]
    recipient_fields_follow_toggle [OF b, of "''name''" "''phone''"]
    recipient_fields_follow_toggle [OF c, of "''name''" "''phone''"]
    recipient_fields_follow_toggle [OF d, of "''name''" "''phone''"]
  show ?thesis by blast
qed

subsection \<open>Pickup and the delivery components\<close>

text \<open>
  C3: whatever the state of the form, after \<^verbatim>\<open>PickupCheckbox.toggle(True)\<close> the date
  picker, the time slots and the recipient checkbox are inactive and both recipient
  fields are hidden.
\<close>

theorem pickup_activation:
  "\<not> is_active (date_picker (PickupCheckbox_toggle True s)) \<and>
   \<not> is_active (time_slots (PickupCheckbox_toggle True s)) \<and>
   \<not> is_active (recipient_cb (PickupCheckbox_toggle True s)) \<and>
   \<not> is_visible (name_input (PickupCheckbox_toggle True s)) \<and>
   \<not> is_visible (phone_input (PickupCheckbox_toggle True s))"
  by (simp add: form_defs)

text \<open>
  C4: whatever the state of the form, \<^verbatim>\<open>PickupCheckbox.toggle(True)\<close> followed by
  \<^verbatim>\<open>PickupCheckbox.toggle(False)\<close> leaves the date picker, the time slots and the
  recipient checkbox active.
\<close>

theorem pickup_round_trip:
  "is_active (date_picker (PickupCheckbox_toggle False (PickupCheckbox_toggle True s))) \<and>
   is_active (time_slots (PickupCheckbox_toggle False (PickupCheckbox_toggle True s))) \<and>
   is_active (recipient_cb (PickupCheckbox_toggle False (PickupCheckbox_toggle True s)))"
  by (simp add: form_defs)

lemma exec_pickup_consistent:
  "pickup_consistent s \<Longrightarrow> \<not> is_set_active x \<Longrightarrow> pickup_consistent (exec x s)"
proof (cases x)
  case (Set_visibility r b)
  assume "pickup_consistent s"
  then show ?thesis unfolding Set_visibility
    by (cases r) (auto simp: pickup_consistent_def checked_def form_defs)
next
  case (Set_required r b)
  assume "pickup_consistent s"
  then show ?thesis unfolding Set_required
    by (cases r) (auto simp: pickup_consistent_def checked_def form_defs)
qed (auto simp: pickup_consistent_def checked_def form_defs)

lemma run_pickup_consistent:
  "pickup_consistent s \<Longrightarrow> \<forall>x\<in>set ops. \<not> is_set_active x \<Longrightarrow> pickup_consistent (run ops s)"
  by (induction ops arbitrary: s) (simp_all add: exec_pickup_consistent)

lemma new_form_pickup_consistent: "pickup_consistent (new_form n p)"
  by (simp add: pickup_consistent_def checked_def new_defs)

text \<open>
  C7 does not hold as stated: \<^verbatim>\<open>set_active\<close> assigns the flag unconditionally, so
  after pickup is chosen a call of \<^verbatim>\<open>set_active(True)\<close> on the date picker makes it
  active while the pickup checkbox is checked.
\<close>

theorem pickup_invariant_counterexample:
  "checked (pickup_cb
     (run [Pickup_toggle True, Set_active Date_picker True] (new_form ''name'' ''phone''))) \<and>
   is_active (date_picker
     (run [Pickup_toggle True, Set_active Date_picker True] (new_form ''name'' ''phone'')))"
  by (simp add: checked_def form_defs new_defs)

text \<open>
  C7, amended: in every state reached from a newly wired form by a sequence of
  operations none of which is a direct call of \<^verbatim>\<open>set_active\<close>, a checked pickup
  checkbox has the date picker, the time slots and the recipient checkbox inactive.
\<close>

theorem pickup_disables_delivery:
  assumes "\<forall>x\<in>set ops. \<not> is_set_active x"
  shows "checked (pickup_cb (run ops (new_form n p))) \<longrightarrow>
           \<not> is_active (date_picker (run ops (new_form n p))) \<and>
           \<not> is_active (time_slots (run ops (new_form n p))) \<and>
           \<not> is_active (recipient_cb (run ops (new_form n p)))"
  using run_pickup_consistent [OF new_form_pickup_consistent assms, of n p]
  by (simp add: pickup_consistent_def)

theorem pickup_disables_delivery_witness:
  "checked (pickup_cb
     (run [Recipient_toggle True, Pickup_toggle True, Select_date (2025, 10, 25)]
        (new_form ''name'' ''phone''))) \<and>
   \<not> is_active (date_picker
     (run [Recipient_toggle True, Pickup_toggle True, Select_date (2025, 10, 25)]
        (new_form ''name'' ''phone''))) \<and>
   \<not> is_active (time_slots
     (run [Recipient_toggle True, Pickup_toggle True, Select_date (2025, 10, 25)]
        (new_form ''name'' ''phone''))) \<and>
   \<not> is_active (recipient_cb
     (run [Recipient_toggle True, Pickup_toggle True, Select_date (2025, 10, 25)]
        (new_form ''name'' ''phone'')))"
  using pickup_disables_delivery
    [of "[Recipient_toggle True, Pickup_toggle True, Select_date (2025, 10, 25)]"
        "''name''" "''phone''"]
  by (simp add: checked_def form_defs new_defs)

subsection \<open>The setters of the recipient fields\<close>

text \<open>
  C10: \<^verbatim>\<open>set_visibility\<close> and \<^verbatim>\<open>set_required\<close> assign the flag of the field in every
  state, also when the field is inactive: after \<^verbatim>\<open>set_active(False)\<close> on the field
  they still assign it.
\<close>

theorem setters_not_gated:
  "is_visible (input_of r (set_visibility r v s)) = v \<and>
   is_required (input_of r (set_required r v s)) = v \<and>
   \<not> is_active (input_of r (set_active (Input r) False s)) \<and>
   is_visible (input_of r (set_visibility r v (set_active (Input r) False s))) = v \<and>
   is_required (input_of r (set_required r v (set_active (Input r) False s))) = v"
  by (cases r) (simp_all add: form_defs)

subsection \<open>Inactive components\<close>

text \<open>
  C2 does not hold as stated: \<^verbatim>\<open>PickupCheckbox.toggle\<close> and the two setters of
  \<^verbatim>\<open>RecipientInput\<close> never read \<^verbatim>\<open>is_active\<close>.  On a new form, after
  \<^verbatim>\<open>set_active(False)\<close> on the pickup checkbox its \<^verbatim>\<open>toggle(True)\<close> assigns
  \<^verbatim>\<open>is_checked\<close> and notifies the mediator, and after \<^verbatim>\<open>set_active(False)\<close> on the
  name field its \<^verbatim>\<open>set_visibility(True)\<close> shows the field.
\<close>

theorem inactivity_counterexample:
  "is_checked (pickup_cb (set_active Pickup_cb False (new_form ''name'' ''phone''))) = None \<and>
   is_checked (pickup_cb
     (PickupCheckbox_toggle True (set_active Pickup_cb False (new_form ''name'' ''phone'')))) =
     Some True \<and>
   notified (set_active Pickup_cb False (new_form ''name'' ''phone'')) = [] \<and>
   notified (PickupCheckbox_toggle True
     (set_active Pickup_cb False (new_form ''name'' ''phone''))) =
     [(Comp Pickup_cb, ''pickup_toggled'')] \<and>
   \<not> is_visible (name_input
     (set_active (Input Name_input) False (new_form ''name'' ''phone''))) \<and>
   is_visible (name_input
     (set_visibility Name_input True
        (set_active (Input Name_input) False (new_form ''name'' ''phone''))))"
  by (simp add: form_defs new_defs)

text \<open>
  C2, amended: for the date picker, the recipient checkbox and the time slots, after
  \<^verbatim>\<open>set_active(False)\<close> on the component its operation (\<^verbatim>\<open>select_date\<close>,
  \<^verbatim>\<open>toggle\<close>, \<^verbatim>\<open>update_available_slots\<close> respectively) changes the state of no
  component and does not call \<^verbatim>\<open>notify\<close>; the first two print a diagnostic line, the
  third prints nothing.
\<close>

theorem inactive_gated_operations:
  "components (select_date d (set_active Date_picker False s)) =
     components (set_active Date_picker False s) \<and>
   notified (select_date d (set_active Date_picker False s)) =
     notified (set_active Date_picker False s) \<and>
   components (RecipientCheckbox_toggle v (set_active Recipient_cb False s)) =
     components (set_active Recipient_cb False s) \<and>
   notified (RecipientCheckbox_toggle v (set_active Recipient_cb False s)) =
     notified (set_active Recipient_cb False s) \<and>
   components (update_available_slots (set_active Time_slots False s)) =
     components (set_active Time_slots False s) \<and>
   notified (update_available_slots (set_active Time_slots False s)) =
     notified (set_active Time_slots False s) \<and>
   stdout (update_available_slots (set_active Time_slots False s)) =
     stdout (set_active Time_slots False s)"
  by (simp add: form_defs components_def)

text \<open>
  C6: \<^verbatim>\<open>select_date\<close> on an active date picker calls \<^verbatim>\<open>notify\<close> once, with
  \<^verbatim>\<open>date_changed\<close>, and \<^verbatim>\<open>update_available_slots\<close> is called exactly once; on an
  inactive date picker neither is called and the state of every component is as before.
\<close>

theorem select_date_refreshes_once:
  "(is_active (date_picker s) \<longrightarrow>
      refreshed (select_date d s) = Suc (refreshed s) \<and>
      notified (select_date d s) = notified s @ [(Comp Date_picker, ''date_changed'')]) \<and>
   (\<not> is_active (date_picker s) \<longrightarrow>
      refreshed (select_date d s) = refreshed s \<and>
      notified (select_date d s) = notified s \<and>
      components (select_date d s) = components s)"
  by (simp add: form_defs components_def)

theorem select_date_refreshes_once_witness:
  "is_active (date_picker (new_form ''name'' ''phone'')) \<and>
   refreshed (select_date (2025, 10, 20) (new_form ''name'' ''phone'')) = 1 \<and>
   notified (select_date (2025, 10, 20) (new_form ''name'' ''phone'')) =
     [(Comp Date_picker, ''date_changed'')] \<and>
   \<not> is_active (date_picker (PickupCheckbox_toggle True (new_form ''name'' ''phone''))) \<and>
   refreshed (select_date (2025, 10, 25) (PickupCheckbox_toggle True (new_form ''name'' ''phone''))) = 0 \<and>
   notified (select_date (2025, 10, 25) (PickupCheckbox_toggle True (new_form ''name'' ''phone''))) =
     [(Comp Pickup_cb, ''pickup_toggled'')] \<and>
   components (select_date (2025, 10, 25) (PickupCheckbox_toggle True (new_form ''name'' ''phone''))) =
     components (PickupCheckbox_toggle True (new_form ''name'' ''phone''))"
proof -
  have a: "is_active (date_picker (new_form ''name'' ''phone''))"
    by (simp add: new_defs)
  have b: "\<not> is_active (date_picker (PickupCheckbox_toggle True (new_form ''name'' ''phone'')))"
    by (simp add: form_defs)
  have c: "refreshed (new_form ''name'' ''phone'') = 0 \<and> notified (new_form ''name'' ''phone'') = []"
    by (simp add: new_defs)
  have d: "refreshed (PickupCheckbox_toggle True (new_form ''name'' ''phone'')) = 0 \<and>
     notified (PickupCheckbox_toggle True (new_form ''name'' ''phone'')) =
       [(Comp Pickup_cb, ''pickup_toggled'')]"
    by (simp add: form_defs new_defs)
  from a b c d
    select_date_refreshes_once [of "new_form ''name'' ''phone''" "(2025, 10, 20)"]
    select_date_refreshes_once
      [of "PickupCheckbox_toggle True (new_form ''name'' ''phone'')" "(2025, 10, 25)"]
  show ?thesis by simp
qed

subsection \<open>The recipient checkbox\<close>

text \<open>
  C5: \<^verbatim>\<open>RecipientCheckbox.toggle(v)\<close> on an active recipient checkbox ends with both
  fields having \<^verbatim>\<open>is_visible\<close> and \<^verbatim>\<open>is_required\<close> equal to \<open>v\<close>.  The mediator is
  notified in a state in which \<^verbatim>\<open>is_checked\<close> of the sender is already \<open>v\<close>.
\<close>

theorem recipient_toggle_sets_fields:
  assumes "is_active (recipient_cb s)"
  shows "is_visible (name_input (RecipientCheckbox_toggle v s)) = v \<and>
         is_required (name_input (RecipientCheckbox_toggle v s)) = v \<and>
         is_visible (phone_input (RecipientCheckbox_toggle v s)) = v \<and>
         is_required (phone_input (RecipientCheckbox_toggle v s)) = v \<and>
         is_checked (recipient_cb (RecipientCheckbox_toggle v s)) = Some v \<and>
         (\<exists>pre. is_checked (recipient_cb pre) = Some v \<and>
            RecipientCheckbox_toggle v s =
              notify (Comp Recipient_cb) ''recipient_checkbox_toggled'' pre)"
proof -
  let ?pre = "(print (Recipient_state RecipientCheckbox v) s)
     \<lparr>recipient_cb := (recipient_cb (print (Recipient_state RecipientCheckbox v) s))
        \<lparr>is_checked := Some v\<rparr>\<rparr>"
  have eq: "RecipientCheckbox_toggle v s =
      notify (Comp Recipient_cb) ''recipient_checkbox_toggled'' ?pre"
    using assms by (simp add: RecipientCheckbox_toggle_def Let_def)
  have pre: "is_checked (recipient_cb ?pre) = Some v"
    by simp
  have fields: "is_visible (name_input (RecipientCheckbox_toggle v s)) = v \<and>
         is_required (name_input (RecipientCheckbox_toggle v s)) = v \<and>
         is_visible (phone_input (RecipientCheckbox_toggle v s)) = v \<and>
         is_required (phone_input (RecipientCheckbox_toggle v s)) = v \<and>
         is_checked (recipient_cb (RecipientCheckbox_toggle v s)) = Some v"
    using assms by (simp add: form_defs)
  from eq pre fields show ?thesis by blast
qed

theorem recipient_toggle_sets_fields_witness:
  "is_active (recipient_cb (new_form ''name'' ''phone'')) \<and>
   is_visible (name_input (RecipientCheckbox_toggle True (new_form ''name'' ''phone''))) \<and>
   is_required (name_input (RecipientCheckbox_toggle True (new_form ''name'' ''phone''))) \<and>
   is_visible (phone_input (RecipientCheckbox_toggle True (new_form ''name'' ''phone''))) \<and>
   is_required (phone_input (RecipientCheckbox_toggle True (new_form ''name'' ''phone'')))"
proof -
  have a: "is_active (recipient_cb (new_form ''name'' ''phone''))"
    by (simp add: new_defs)
  from a recipient_toggle_sets_fields [OF a, of True] show ?thesis by simp
qed

subsection \<open>The dispatch of events\<close>

text \<open>
  C8: for every sender, \<^verbatim>\<open>notify\<close> with an event other than \<^verbatim>\<open>date_changed\<close>,
  \<^verbatim>\<open>recipient_checkbox_toggled\<close> and \<^verbatim>\<open>pickup_toggled\<close> changes the state of no
  component and prints nothing: only the ghost log of calls records it.
\<close>

theorem notify_unknown_event:
  assumes "event \<notin> {''date_changed'', ''recipient_checkbox_toggled'', ''pickup_toggled''}"
  shows "components (notify sender event s) = components s \<and>
         stdout (notify sender event s) = stdout s \<and>
         refreshed (notify sender event s) = refreshed s \<and>
         notify sender event s = s\<lparr>notified := notified s @ [(sender, event)]\<rparr>"
  using assms by (simp add: notify_def components_def)

theorem notify_unknown_event_witness:
  "''date_selected'' \<notin> {''date_changed'', ''recipient_checkbox_toggled'', ''pickup_toggled''} \<and>
   components (notify (Comp Date_picker) ''date_selected'' (new_form ''name'' ''phone'')) =
     components (new_form ''name'' ''phone'') \<and>
   stdout (notify (Comp Date_picker) ''date_selected'' (new_form ''name'' ''phone'')) = []"
proof -
  have a: "''date_selected'' \<notin> {''date_changed'', ''recipient_checkbox_toggled'', ''pickup_toggled''}"
    by simp
  have b: "stdout (new_form ''name'' ''phone'') = []"
    by (simp add: new_defs)
  from a b notify_unknown_event [OF a, of "Comp Date_picker" "new_form ''name'' ''phone''"]
  show ?thesis by (simp add: components_def)
qed

lemma notified_setters:
  "notified (set_active c b s) = notified s"
  "notified (set_visibility r b s) = notified s"
  "notified (set_required r b s) = notified s"
  "notified (update_available_slots s) = notified s"
  by (cases "(c, b, s)" rule: assign_is_active.cases; cases r;
      simp add: form_defs)+

text \<open>
  C9: a call of \<^verbatim>\<open>notify\<close> adds exactly one entry to the log of calls of \<^verbatim>\<open>notify\<close>,
  its own, whatever the sender, the event and the state: no handler notifies again.
  Hence every operation of the form, in every state, calls \<^verbatim>\<open>notify\<close> at most once.
\<close>

theorem notify_not_reentrant:
  "notified (notify sender event s) = notified s @ [(sender, event)] \<and>
   (\<exists>es. notified (exec x s) = notified s @ es \<and> length es \<le> 1)"
proof
  show n: "notified (notify sender event s) = notified s @ [(sender, event)]" for sender event s
    by (simp add: notify_def Let_def notified_setters print_def)
  show "\<exists>es. notified (exec x s) = notified s @ es \<and> length es \<le> 1"
    by (cases x)
      (simp_all add: select_date_def RecipientCheckbox_toggle_def PickupCheckbox_toggle_def
         Let_def n notified_setters, simp_all add: print_def)
qed

end
